theory Spec2Isabelle
  imports Main
begin

section \<open>JavaScript values\<close>

text \<open>
  The values that flow through the monitor: what \<^verbatim>\<open>JSON.parse\<close> produces, plus
  \<^verbatim>\<open>undefined\<close>, which a read of a missing property and \<^verbatim>\<open>Array.prototype.find\<close>
  produce. An object is its list of own properties; \<^verbatim>\<open>JSON.parse\<close> yields distinct keys.
  A number is given by its text under JavaScript's number-to-string conversion, as
  \<^verbatim>\<open>String(x)\<close> prints it (\<^verbatim>\<open>"0"\<close>, \<^verbatim>\<open>"-1.5"\<close>, \<^verbatim>\<open>"1e+21"\<close>). The numbers of
  \<^verbatim>\<open>JSON.parse\<close> are finite, and two of them are \<^verbatim>\<open>===\<close> exactly when they print the same;
  \<^verbatim>\<open>0\<close> and \<^verbatim>\<open>-0\<close> both print \<^verbatim>\<open>"0"\<close>. No arithmetic is done on them.
\<close>

datatype jsval =
    Undefined
  | Null
  | Bool bool
  | Num string
  | Str string
  | Arr "jsval list"
  | Obj "(string \<times> jsval) list"

text \<open>Truthiness (\<^verbatim>\<open>ToBoolean\<close>): \<^verbatim>\<open>undefined\<close>, \<^verbatim>\<open>null\<close>, \<^verbatim>\<open>false\<close>, \<^verbatim>\<open>0\<close> and
  \<^verbatim>\<open>""\<close> are falsy, everything else (every array and object too) is truthy.\<close>

fun truthy :: "jsval \<Rightarrow> bool" where
  "truthy Undefined = False"
| "truthy Null = False"
| "truthy (Bool b) = b"
| "truthy (Num n) = (n \<noteq> ''0'')"
| "truthy (Str s) = (s \<noteq> [])"
| "truthy (Arr xs) = True"
| "truthy (Obj kvs) = True"

text \<open>\<^verbatim>\<open>v.k\<close> for the keys the program reads (\<^verbatim>\<open>queues\<close>, \<^verbatim>\<open>id\<close>, \<^verbatim>\<open>name\<close>, \<^verbatim>\<open>slug\<close>,
  \<^verbatim>\<open>displayName\<close>, \<^verbatim>\<open>title\<close>): an object gives its own property, a string, number,
  boolean or array has none of them. On \<^verbatim>\<open>null\<close> and \<^verbatim>\<open>undefined\<close> the read throws; that
  is \<open>getProp\<close> below, and \<open>propOf\<close> is only applied where the source has excluded them.\<close>

fun propOf :: "jsval \<Rightarrow> string \<Rightarrow> jsval" where
  "propOf (Obj kvs) k = (case map_of kvs k of None \<Rightarrow> Undefined | Some v \<Rightarrow> v)"
| "propOf v k = Undefined"

datatype exn = Error string | TypeError string

fun message :: "exn \<Rightarrow> string" where
  "message (Error m) = m"
| "message (TypeError m) = m"

fun nullish :: "jsval \<Rightarrow> bool" where
  "nullish Undefined = True"
| "nullish Null = True"
| "nullish v = False"

definition getProp :: "jsval \<Rightarrow> string \<Rightarrow> exn + jsval" where
  "getProp v k =
     (if nullish v then Inl (TypeError (''Cannot read properties of null or undefined: '' @ k))
      else Inr (propOf v k))"

text \<open>\<^verbatim>\<open>a === b\<close> where the two values come from different \<^verbatim>\<open>JSON.parse\<close> calls (or one
  of them is a primitive): primitives compare by value, two arrays or objects are never
  the same reference.\<close>

fun strictEq :: "jsval \<Rightarrow> jsval \<Rightarrow> bool" where
  "strictEq (Arr xs) b = False"
| "strictEq (Obj kvs) b = False"
| "strictEq a b = (a = b)"

subsection \<open>String conversion\<close>

function showNat :: "nat \<Rightarrow> string" where
  "showNat n =
     (if n < 10 then [char_of (48 + n)]
      else showNat (n div 10) @ [char_of (48 + n mod 10)])"
  by pat_completeness auto
termination
  by (relation "measure (\<lambda>n. n)") auto

declare showNat.simps [simp del]

fun join :: "string \<Rightarrow> string list \<Rightarrow> string" where
  "join sep [] = []"
| "join sep [x] = x"
| "join sep (x # y # ys) = x @ sep @ join sep (y # ys)"

text \<open>The results of a list of computations, up to the first that throws.\<close>

fun sequence :: "(exn + 'a) list \<Rightarrow> exn + 'a list" where
  "sequence [] = Inr []"
| "sequence (Inl e # rs) = Inl e"
| "sequence (Inr x # rs) = (case sequence rs of Inl e \<Rightarrow> Inl e | Inr xs \<Rightarrow> Inr (x # xs))"

text \<open>\<^verbatim>\<open>`${v}`\<close>: the string conversion a template literal applies. An array joins the
  conversions of its elements with commas, \<^verbatim>\<open>null\<close> and \<^verbatim>\<open>undefined\<close> elements as empty
  strings. An object is converted by its \<^verbatim>\<open>toString\<close>: the inherited one gives
  \<^verbatim>\<open>[object Object]\<close>; an own property of that name is not callable in parsed JSON, and
  the conversion then throws a TypeError.\<close>

fun toStr :: "jsval \<Rightarrow> exn + string" where
  "toStr Undefined = Inr ''undefined''"
| "toStr Null = Inr ''null''"
| "toStr (Bool b) = Inr (if b then ''true'' else ''false'')"
| "toStr (Num n) = Inr n"
| "toStr (Str s) = Inr s"
| "toStr (Arr xs) =
     (case sequence (map (\<lambda>x. if nullish x then Inr [] else toStr x) xs) of
        Inl e \<Rightarrow> Inl e
      | Inr parts \<Rightarrow> Inr (join '','' parts))"
| "toStr (Obj kvs) =
     (case map_of kvs ''toString'' of
        None \<Rightarrow> Inr ''[object Object]''
      | Some v \<Rightarrow> Inl (TypeError ''Cannot convert object to primitive value''))"

section \<open>Record extraction and slugs (timer-based App)\<close>

text \<open>\<^verbatim>\<open>xs.find(p)\<close>: the first element that satisfies \<open>p\<close>, \<^verbatim>\<open>undefined\<close> when there is
  none; a callback that throws ends the search with its exception.\<close>

fun find_js :: "(jsval \<Rightarrow> exn + bool) \<Rightarrow> jsval list \<Rightarrow> exn + jsval" where
  "find_js p [] = Inr Undefined"
| "find_js p (x # xs) =
     (case p x of
        Inl e \<Rightarrow> Inl e
      | Inr True \<Rightarrow> Inr x
      | Inr False \<Rightarrow> find_js p xs)"

text \<open>\<^verbatim>\<open>queue => queue.name === id\<close>\<close>

definition nameIs :: "string \<Rightarrow> jsval \<Rightarrow> exn + bool" where
  "nameIs i queue =
     (case getProp queue ''name'' of Inl e \<Rightarrow> Inl e | Inr n \<Rightarrow> Inr (strictEq n (Str i)))"

text \<open>\<^verbatim>\<open>item => item.id === id || item.name === id\<close>\<close>

definition idOrNameIs :: "string \<Rightarrow> jsval \<Rightarrow> exn + bool" where
  "idOrNameIs i item =
     (case getProp item ''id'' of
        Inl e \<Rightarrow> Inl e
      | Inr v \<Rightarrow>
          if strictEq v (Str i) then Inr True
          else (case getProp item ''name'' of Inl e \<Rightarrow> Inl e | Inr n \<Rightarrow> Inr (strictEq n (Str i))))"

text \<open>\<^verbatim>\<open>extractRelevantData(data, id)\<close>. The filter \<open>i\<close> is the monitor's \<^verbatim>\<open>filterId\<close>, a
  string; the empty string is falsy, so it means "no filter". \<^verbatim>\<open>data.queues.find\<close> on a
  truthy \<^verbatim>\<open>queues\<close> that is not an array is a call of \<^verbatim>\<open>undefined\<close>: a TypeError.\<close>

definition extractRelevantData :: "jsval \<Rightarrow> string \<Rightarrow> exn + jsval" where
  "extractRelevantData data i =
     (if truthy data \<and> truthy (propOf data ''queues'') then
        (if i \<noteq> [] then
           (case propOf data ''queues'' of
              Arr qs \<Rightarrow> find_js (nameIs i) qs
            | _ \<Rightarrow> Inl (TypeError ''data.queues.find is not a function''))
         else Inr (propOf data ''queues''))
      else
        (case data of
           Arr xs \<Rightarrow> (if i \<noteq> [] then find_js (idOrNameIs i) xs else Inr data)
         | Obj kvs \<Rightarrow>
             (if i \<noteq> [] then
                (if strictEq (propOf data ''id'') (Str i) \<or> strictEq (propOf data ''name'') (Str i)
                 then Inr data else Inr Null)
              else Inr data)
         | _ \<Rightarrow> Inr Null))"

text \<open>\<^verbatim>\<open>a || b\<close>\<close>

definition or_js :: "jsval \<Rightarrow> jsval \<Rightarrow> jsval" where
  "or_js a b = (if truthy a then a else b)"

definition getSlugFromData :: "jsval \<Rightarrow> jsval" where
  "getSlugFromData data =
     (if \<not> truthy data then Null
      else or_js (or_js (propOf data ''slug'') (propOf data ''name'')) Null)"

definition getNameFromData :: "jsval \<Rightarrow> jsval" where
  "getNameFromData data =
     (if \<not> truthy data then Null
      else or_js (or_js (or_js (propOf data ''name'') (propOf data ''displayName''))
                   (propOf data ''title'')) Null)"

section \<open>Monitors and the timer-based App\<close>

text \<open>The difference object \<^verbatim>\<open>{name, url, slug_difference: {previous, current}}\<close>.\<close>

record difference =
  d_name :: jsval
  d_url :: string
  d_previous :: jsval
  d_current :: jsval

text \<open>A monitor as \<^verbatim>\<open>addNewMonitor\<close> creates it. \<^verbatim>\<open>id\<close> is \<open>mid\<close> here; \<^verbatim>\<open>differences\<close> is
  \<^verbatim>\<open>null\<close> (\<open>None\<close>) or a difference object. The interval is a whole number of seconds
  (the \<^verbatim>\<open>NaN\<close> that \<^verbatim>\<open>parseInt\<close> gives for an empty input is not represented).\<close>

record monitor =
  mid :: string
  name :: string
  apiUrl :: string
  filterId :: string
  interval :: int
  isRunning :: bool
  previousData :: jsval
  differences :: "difference option"

text \<open>The \<^verbatim>\<open>updates\<close> object of \<^verbatim>\<open>updateMonitor\<close>: each key is present (\<open>Some\<close>) or not.\<close>

record updates =
  u_name :: "string option"
  u_apiUrl :: "string option"
  u_filterId :: "string option"
  u_interval :: "int option"
  u_isRunning :: "bool option"
  u_previousData :: "jsval option"
  u_differences :: "difference option"

definition noUpdates :: updates where
  "noUpdates =
     \<lparr>u_name = None, u_apiUrl = None, u_filterId = None, u_interval = None,
      u_isRunning = None, u_previousData = None, u_differences = None\<rparr>"

text \<open>\<^verbatim>\<open>{ ...monitor, ...updates }\<close>\<close>

definition spread :: "monitor \<Rightarrow> updates \<Rightarrow> monitor" where
  "spread m u =
     m\<lparr>name := (case u_name u of None \<Rightarrow> name m | Some v \<Rightarrow> v),
       apiUrl := (case u_apiUrl u of None \<Rightarrow> apiUrl m | Some v \<Rightarrow> v),
       filterId := (case u_filterId u of None \<Rightarrow> filterId m | Some v \<Rightarrow> v),
       interval := (case u_interval u of None \<Rightarrow> interval m | Some v \<Rightarrow> v),
       isRunning := (case u_isRunning u of None \<Rightarrow> isRunning m | Some v \<Rightarrow> v),
       previousData := (case u_previousData u of None \<Rightarrow> previousData m | Some v \<Rightarrow> v),
       differences := (case u_differences u of None \<Rightarrow> differences m | Some d \<Rightarrow> Some d)\<rparr>"

datatype toast = ToastError string | ToastSuccess string

text \<open>A live \<^verbatim>\<open>setInterval\<close> timer of the page: its handle, the monitor object its callback
  \<^verbatim>\<open>() => fetchData(monitor)\<close> closes over, and its period in milliseconds.\<close>

record timer =
  handle :: nat
  callbackMonitor :: monitor
  delay :: int

text \<open>The state of the timer-based App: the React state \<^verbatim>\<open>monitors\<close>, \<^verbatim>\<open>selectedMonitor\<close>
  and \<^verbatim>\<open>intervals\<close> (monitor id to timer handle), the browser's live timers and its next
  timer handle (handles are positive), and the toasts shown so far. Event handlers belong
  to the latest render, so the \<^verbatim>\<open>intervals\<close> they read is the current one.\<close>

record app =
  monitors :: "monitor list"
  selectedMonitor :: "string option"
  intervals :: "string \<rightharpoonup> nat"
  timers :: "timer list"
  nextHandle :: nat
  toasts :: "toast list"

definition initialApp :: app where
  "initialApp =
     \<lparr>monitors = [], selectedMonitor = None, intervals = Map.empty, timers = [],
      nextHandle = 1, toasts = []\<rparr>"

definition clearInterval :: "nat \<Rightarrow> timer list \<Rightarrow> timer list" where
  "clearInterval h ts = filter (\<lambda>t. handle t \<noteq> h) ts"

definition clearMonitorInterval :: "string \<Rightarrow> app \<Rightarrow> app" where
  "clearMonitorInterval monitorId s =
     (case intervals s monitorId of
        None \<Rightarrow> s
      | Some h \<Rightarrow>
          if h \<noteq> 0 then
            s\<lparr>timers := clearInterval h (timers s),
              intervals := (intervals s)(monitorId := None)\<rparr>
          else s)"

text \<open>\<^verbatim>\<open>'interval' in updates || ('isRunning' in updates && !updates.isRunning)\<close>\<close>

definition clearsTimer :: "updates \<Rightarrow> bool" where
  "clearsTimer u = (u_interval u \<noteq> None \<or> u_isRunning u = Some False)"

text \<open>The callback of \<^verbatim>\<open>prevMonitors.map\<close> in \<^verbatim>\<open>updateMonitor\<close>, run over the list from
  left to right: it clears the timer as a side effect at every monitor with the id.\<close>

fun updateMonitor_map :: "string \<Rightarrow> updates \<Rightarrow> monitor list \<Rightarrow> app \<Rightarrow> monitor list \<times> app" where
  "updateMonitor_map i u [] s = ([], s)"
| "updateMonitor_map i u (m # ms) s =
     (if mid m = i then
        (let s1 = (if clearsTimer u then clearMonitorInterval i s else s);
             (ms', s2) = updateMonitor_map i u ms s1
         in (spread m u # ms', s2))
      else
        (let (ms', s2) = updateMonitor_map i u ms s in (m # ms', s2)))"

definition updateMonitor :: "string \<Rightarrow> updates \<Rightarrow> app \<Rightarrow> app" where
  "updateMonitor i u s =
     (let (ms', s') = updateMonitor_map i u (monitors s) s in s'\<lparr>monitors := ms'\<rparr>)"

definition deleteMonitor :: "string \<Rightarrow> app \<Rightarrow> app" where
  "deleteMonitor i s =
     (let s1 = clearMonitorInterval i s;
          s2 = s1\<lparr>monitors := filter (\<lambda>m. mid m \<noteq> i) (monitors s1)\<rparr>
      in if selectedMonitor s2 = Some i then s2\<lparr>selectedMonitor := None\<rparr> else s2)"

text \<open>\<^verbatim>\<open>addNewMonitor\<close>; \<open>now\<close> is \<^verbatim>\<open>Date.now().toString()\<close>.\<close>

definition addNewMonitor :: "string \<Rightarrow> app \<Rightarrow> app" where
  "addNewMonitor now s =
     (let newMonitor =
            \<lparr>mid = now, name = ''Monitor '' @ showNat (length (monitors s) + 1), apiUrl = [],
             filterId = [], interval = 30, isRunning = False, previousData = Null,
             differences = None\<rparr>
      in s\<lparr>monitors := monitors s @ [newMonitor], selectedMonitor := Some now\<rparr>)"

subsection \<open>The poll cycle\<close>

text \<open>What the network and the parsers hand to one poll cycle. A response body either is
  JSON (\<open>Json\<close>, with the parsed value) or is not (\<open>NotJson\<close>, with the parser's message
  and what the pattern \<^verbatim>\<open>window.queueFair.settings = {...};\<close> finds in the text).\<close>

datatype settingsMatch = NoMatch | MatchJson jsval | MatchNotJson

datatype body = Json jsval | NotJson string settingsMatch

datatype fetchResult =
    NetworkFailure string
  | Response nat body

text \<open>\<^verbatim>\<open>response.ok\<close>: the status is in the range 200 to 299.\<close>

definition ok :: "nat \<Rightarrow> bool" where
  "ok status = (200 \<le> status \<and> status \<le> 299)"

text \<open>The parse of the response text in \<^verbatim>\<open>fetchData\<close>: \<^verbatim>\<open>JSON.parse(text)\<close>, and in its
  \<^verbatim>\<open>catch\<close> the pattern match and the parse of the captured object literal.\<close>

fun parseBody :: "body \<Rightarrow> exn + jsval" where
  "parseBody (Json v) = Inr v"
| "parseBody (NotJson e NoMatch) = Inl (Error ''Unsupported response format'')"
| "parseBody (NotJson e (MatchJson v)) = Inr v"
| "parseBody (NotJson e MatchNotJson) = Inl (Error ''Failed to parse response data'')"

text \<open>The \<^verbatim>\<open>try\<close> block of \<^verbatim>\<open>fetchData\<close>: \<open>Inl\<close> is the exception it throws, \<open>Inr\<close> the state
  it ends in. The awaited response is an argument, \<^verbatim>\<open>Response status body\<close> or the
  error a rejected \<^verbatim>\<open>fetch\<close> throws: the cycle is run as one step, with no other event
  between request and response. The template literal of the difference's \<^verbatim>\<open>url\<close> is
  evaluated before \<^verbatim>\<open>updateMonitor\<close> is called, so a conversion that throws leaves the
  state as it was.\<close>

definition fetchData_try :: "monitor \<Rightarrow> fetchResult \<Rightarrow> app \<Rightarrow> exn + app" where
  "fetchData_try monitor r s =
     (if apiUrl monitor = [] then
        Inr (s\<lparr>toasts := toasts s @ [ToastError (''Please enter an API URL for '' @ name monitor)]\<rparr>)
      else
        (case r of
           NetworkFailure msg \<Rightarrow> Inl (TypeError msg)
         | Response status b \<Rightarrow>
             if \<not> ok status then Inl (Error (''HTTP error! status: '' @ showNat status))
             else
               (case parseBody b of
                  Inl e \<Rightarrow> Inl e
                | Inr data \<Rightarrow>
                    (case extractRelevantData data (filterId monitor) of
                       Inl e \<Rightarrow> Inl e
                     | Inr relevantData \<Rightarrow>
                         if \<not> truthy relevantData then
                           Inr (s\<lparr>toasts := toasts s @
                                  [ToastError (''No data found for the specified ID in '' @ name monitor)]\<rparr>)
                         else
                           (let currentSlug = getSlugFromData relevantData;
                                previousSlug =
                                  (if truthy (previousData monitor)
                                   then getSlugFromData (previousData monitor) else Null)
                            in
                              if truthy (previousData monitor) \<and> \<not> strictEq currentSlug previousSlug
                              then
                                (case toStr currentSlug of
                                   Inl e \<Rightarrow> Inl e
                                 | Inr slugText \<Rightarrow>
                                     (let difference =
                                            \<lparr>d_name = getNameFromData relevantData,
                                             d_url = apiUrl monitor @ ''/'' @ slugText,
                                             d_previous = previousSlug,
                                             d_current = currentSlug\<rparr>;
                                          s1 = updateMonitor (mid monitor)
                                                 (noUpdates\<lparr>u_differences := Some difference,
                                                            u_previousData := Some relevantData\<rparr>) s
                                      in Inr (s1\<lparr>toasts := toasts s1 @
                                                [ToastSuccess
                                                  (''Changes detected in '' @ name monitor @ ''!'')]\<rparr>)))
                              else
                                Inr (updateMonitor (mid monitor)
                                       (noUpdates\<lparr>u_previousData := Some relevantData\<rparr>) s))))))"

text \<open>\<^verbatim>\<open>fetchData\<close>: the \<^verbatim>\<open>catch\<close> turns an exception into an error toast. (The
  \<^verbatim>\<open>console.error\<close> line is not modelled.)\<close>

definition fetchData :: "monitor \<Rightarrow> fetchResult \<Rightarrow> app \<Rightarrow> app" where
  "fetchData monitor r s =
     (case fetchData_try monitor r s of
        Inl error \<Rightarrow>
          s\<lparr>toasts := toasts s @ [ToastError (''Error in '' @ name monitor @ '': '' @ message error)]\<rparr>
      | Inr s' \<Rightarrow> s')"

text \<open>\<^verbatim>\<open>setInterval(() => fetchData(monitor), ms)\<close>: a new live timer under a fresh handle.\<close>

definition setInterval :: "monitor \<Rightarrow> int \<Rightarrow> app \<Rightarrow> nat \<times> app" where
  "setInterval monitor ms s =
     (nextHandle s,
      s\<lparr>timers := timers s @ [\<lparr>handle = nextHandle s, callbackMonitor = monitor, delay = ms\<rparr>],
        nextHandle := Suc (nextHandle s)\<rparr>)"

text \<open>\<^verbatim>\<open>startMonitor(monitor)\<close>; \<open>r\<close> is the outcome of its immediate poll.\<close>

definition startMonitor :: "monitor \<Rightarrow> fetchResult \<Rightarrow> app \<Rightarrow> app" where
  "startMonitor monitor r s =
     (let s1 = fetchData monitor r s;
          (intervalId, s2) = setInterval monitor (interval monitor * 1000) s1;
          s3 = s2\<lparr>intervals := (intervals s2)(mid monitor \<mapsto> intervalId)\<rparr>
      in updateMonitor (mid monitor) (noUpdates\<lparr>u_isRunning := Some True\<rparr>) s3)"

definition toggleMonitor :: "monitor \<Rightarrow> fetchResult \<Rightarrow> app \<Rightarrow> app" where
  "toggleMonitor monitor r s =
     (if \<not> isRunning monitor then startMonitor monitor r s
      else updateMonitor (mid monitor) (noUpdates\<lparr>u_isRunning := Some False\<rparr>)
             (clearMonitorInterval (mid monitor) s))"

text \<open>One firing of the live timer with handle \<open>h\<close>: its callback polls with the monitor
  object it closed over when the monitor was started. A cleared timer does not fire.\<close>

definition tick :: "nat \<Rightarrow> fetchResult \<Rightarrow> app \<Rightarrow> app" where
  "tick h r s =
     (case find (\<lambda>t. handle t = h) (timers s) of
        None \<Rightarrow> s
      | Some t \<Rightarrow> fetchData (callbackMonitor t) r s)"

text \<open>The mount effect: \<^verbatim>\<open>localStorage.getItem('apiMonitors')\<close> is \<open>None\<close> or the saved
  list; each saved monitor comes with the outcome of the poll its restart would make.\<close>

fun restartAll :: "(monitor \<times> fetchResult) list \<Rightarrow> app \<Rightarrow> app" where
  "restartAll [] s = s"
| "restartAll ((monitor, r) # rest) s =
     restartAll rest (if isRunning monitor then startMonitor monitor r s else s)"

definition restore :: "(monitor \<times> fetchResult) list option \<Rightarrow> app \<Rightarrow> app" where
  "restore savedMonitors s =
     (case savedMonitors of
        None \<Rightarrow> s
      | Some parsedMonitors \<Rightarrow> restartAll parsedMonitors (s\<lparr>monitors := map fst parsedMonitors\<rparr>))"

section \<open>The worker-based App\<close>

text \<open>The worker's global scope: \<^verbatim>\<open>self.monitors\<close>, a list of \<^verbatim>\<open>{id, intervalId}\<close>, its
  live timers and its next timer handle; and the page: the React state \<^verbatim>\<open>monitors\<close> and
  \<^verbatim>\<open>selectedMonitor\<close>, the toasts, and whether \<^verbatim>\<open>window.Worker\<close> gave a worker.
  A posted message is handled at once by the other side.\<close>

record wapp =
  w_monitors :: "monitor list"
  w_selectedMonitor :: "string option"
  w_toasts :: "toast list"
  monitorWorker :: bool
  self_monitors :: "(string \<times> nat) list"
  self_timers :: "timer list"
  self_nextHandle :: nat

definition initialWapp :: wapp where
  "initialWapp =
     \<lparr>w_monitors = [], w_selectedMonitor = None, w_toasts = [], monitorWorker = True,
      self_monitors = [], self_timers = [], self_nextHandle = 1\<rparr>"

text \<open>What the page posts to the worker. \<^verbatim>\<open>STOP_MONITOR\<close> reads only the monitor's id.\<close>

datatype workerRequest = START_MONITOR monitor | STOP_MONITOR string

text \<open>What the worker posts back: \<^verbatim>\<open>{type, monitorId, data}\<close> or \<^verbatim>\<open>{type, monitorId, error}\<close>.\<close>

datatype workerReply = UPDATE_DATA string jsval | ERROR string string

text \<open>\<^verbatim>\<open>self.onmessage\<close> of monitorWorker.js.\<close>

definition worker_onmessage :: "workerRequest \<Rightarrow> wapp \<Rightarrow> wapp" where
  "worker_onmessage req w =
     (case req of
        START_MONITOR monitor \<Rightarrow>
          if list_ex (\<lambda>m. fst m = mid monitor) (self_monitors w) then w
          else
            (let intervalId = self_nextHandle w
             in w\<lparr>self_timers := self_timers w @
                      [\<lparr>handle = intervalId, callbackMonitor = monitor,
                        delay = interval monitor * 1000\<rparr>],
                   self_nextHandle := Suc intervalId,
                   self_monitors := self_monitors w @ [(mid monitor, intervalId)]\<rparr>)
      | STOP_MONITOR i \<Rightarrow>
          (case find (\<lambda>m. fst m = i) (self_monitors w) of
             None \<Rightarrow> w
           | Some entry \<Rightarrow>
               w\<lparr>self_timers := clearInterval (snd entry) (self_timers w),
                 self_monitors := remove1 entry (self_monitors w)\<rparr>))"

text \<open>The worker's interval callback: one fetch, one posted message.\<close>

definition intervalCallback :: "monitor \<Rightarrow> fetchResult \<Rightarrow> workerReply" where
  "intervalCallback monitor r =
     (case r of
        NetworkFailure msg \<Rightarrow> ERROR (mid monitor) msg
      | Response status b \<Rightarrow>
          if \<not> ok status then ERROR (mid monitor) (''HTTP '' @ showNat status)
          else
            (case b of
               Json data \<Rightarrow> UPDATE_DATA (mid monitor) data
             | NotJson e m \<Rightarrow> ERROR (mid monitor) e))"

definition updateMonitor_w :: "string \<Rightarrow> updates \<Rightarrow> wapp \<Rightarrow> wapp" where
  "updateMonitor_w i u w =
     w\<lparr>w_monitors := map (\<lambda>monitor. if mid monitor = i then spread monitor u else monitor)
                        (w_monitors w)\<rparr>"

text \<open>\<^verbatim>\<open>monitorWorker.onmessage\<close> of the page.\<close>

definition page_onmessage :: "workerReply \<Rightarrow> wapp \<Rightarrow> wapp" where
  "page_onmessage reply w =
     (case reply of
        UPDATE_DATA monitorId data \<Rightarrow>
          (let w1 = updateMonitor_w monitorId (noUpdates\<lparr>u_previousData := Some data\<rparr>) w
           in w1\<lparr>w_toasts := w_toasts w1 @ [ToastSuccess (''Update received for '' @ monitorId)]\<rparr>)
      | ERROR monitorId error \<Rightarrow>
          w\<lparr>w_toasts := w_toasts w @ [ToastError (''Error in '' @ monitorId @ '': '' @ error)]\<rparr>)"

definition addNewMonitor_w :: "string \<Rightarrow> wapp \<Rightarrow> wapp" where
  "addNewMonitor_w now w =
     (let newMonitor =
            \<lparr>mid = now, name = ''Monitor '' @ showNat (length (w_monitors w) + 1), apiUrl = [],
             filterId = [], interval = 30, isRunning = False, previousData = Null,
             differences = None\<rparr>
      in w\<lparr>w_monitors := w_monitors w @ [newMonitor], w_selectedMonitor := Some now\<rparr>)"

definition deleteMonitor_w :: "string \<Rightarrow> wapp \<Rightarrow> wapp" where
  "deleteMonitor_w i w =
     (let w1 = (if monitorWorker w then worker_onmessage (STOP_MONITOR i) w else w);
          w2 = w1\<lparr>w_monitors := filter (\<lambda>m. mid m \<noteq> i) (w_monitors w1)\<rparr>
      in if w_selectedMonitor w2 = Some i then w2\<lparr>w_selectedMonitor := None\<rparr> else w2)"

definition toggleMonitor_w :: "monitor \<Rightarrow> wapp \<Rightarrow> wapp" where
  "toggleMonitor_w monitor w =
     (if \<not> monitorWorker w then w
      else if \<not> isRunning monitor then
        updateMonitor_w (mid monitor) (noUpdates\<lparr>u_isRunning := Some True\<rparr>)
          (worker_onmessage (START_MONITOR monitor) w)
      else
        updateMonitor_w (mid monitor) (noUpdates\<lparr>u_isRunning := Some False\<rparr>)
          (worker_onmessage (STOP_MONITOR (mid monitor)) w))"

text \<open>One firing of the worker's live timer \<open>h\<close>, with the page's handling of the message
  it posts.\<close>

definition tick_w :: "nat \<Rightarrow> fetchResult \<Rightarrow> wapp \<Rightarrow> wapp" where
  "tick_w h r w =
     (case find (\<lambda>t. handle t = h) (self_timers w) of
        None \<Rightarrow> w
      | Some t \<Rightarrow> page_onmessage (intervalCallback (callbackMonitor t) r) w)"

text \<open>The mount effect of the worker-based App: it loads the saved list and posts nothing.\<close>

definition restore_w :: "monitor list option \<Rightarrow> wapp \<Rightarrow> wapp" where
  "restore_w savedMonitors w =
     (case savedMonitors of None \<Rightarrow> w | Some parsed \<Rightarrow> w\<lparr>w_monitors := parsed\<rparr>)"

text \<open>The events of the worker-based App: the buttons and inputs of the page, a firing
  of a worker timer, and the mount effect.\<close>

datatype wevent =
    AddNewMonitor string
  | EditName string string
  | EditApiUrl string string
  | DeleteMonitor string
  | ToggleMonitor monitor
  | TimerFires nat fetchResult
  | Mount "monitor list option"

definition wstep :: "wevent \<Rightarrow> wapp \<Rightarrow> wapp" where
  "wstep e w =
     (case e of
        AddNewMonitor now \<Rightarrow> addNewMonitor_w now w
      | EditName i v \<Rightarrow> updateMonitor_w i (noUpdates\<lparr>u_name := Some v\<rparr>) w
      | EditApiUrl i v \<Rightarrow> updateMonitor_w i (noUpdates\<lparr>u_apiUrl := Some v\<rparr>) w
      | DeleteMonitor i \<Rightarrow> deleteMonitor_w i w
      | ToggleMonitor monitor \<Rightarrow> toggleMonitor_w monitor w
      | TimerFires h r \<Rightarrow> tick_w h r w
      | Mount savedMonitors \<Rightarrow> restore_w savedMonitors w)"

text \<open>The difference objects an event brings in from outside: those of the saved list.\<close>

definition savedDifferences :: "wevent \<Rightarrow> difference option set" where
  "savedDifferences e =
     (case e of Mount (Some parsed) \<Rightarrow> set (map differences parsed) | _ \<Rightarrow> {})"

section \<open>The specification's wording\<close>

text \<open>\<^verbatim>\<open>a ?? b\<close>, as the specification writes the slug and the display name.\<close>

definition coalesce :: "jsval \<Rightarrow> jsval \<Rightarrow> jsval" where
  "coalesce a b = (if nullish a then b else a)"

definition slug_spec :: "jsval \<Rightarrow> jsval" where
  "slug_spec record = coalesce (coalesce (propOf record ''slug'') (propOf record ''name'')) Null"

definition displayName_spec :: "jsval \<Rightarrow> jsval" where
  "displayName_spec record =
     coalesce (coalesce (coalesce (propOf record ''name'') (propOf record ''displayName''))
                 (propOf record ''title'')) Null"

text \<open>The specification's \<^verbatim>\<open>extractRecord\<close>, case by case as it is worded; the entry of a
  list is the first that matches, and no match is \<^verbatim>\<open>null\<close>.\<close>

definition entryWhere :: "(jsval \<Rightarrow> bool) \<Rightarrow> jsval list \<Rightarrow> jsval" where
  "entryWhere p xs = (case find p xs of None \<Rightarrow> Null | Some x \<Rightarrow> x)"

definition extractRecord_spec :: "jsval \<Rightarrow> string \<Rightarrow> jsval" where
  "extractRecord_spec body filterKey =
     (case propOf body ''queues'' of
        Arr qs \<Rightarrow>
          if filterKey \<noteq> [] then entryWhere (\<lambda>q. propOf q ''name'' = Str filterKey) qs
          else Arr qs
      | _ \<Rightarrow>
          (case body of
             Arr xs \<Rightarrow>
               if filterKey \<noteq> [] then
                 entryWhere (\<lambda>x. propOf x ''id'' = Str filterKey \<or> propOf x ''name'' = Str filterKey) xs
               else Arr xs
           | Obj kvs \<Rightarrow>
               if filterKey = [] \<or> propOf body ''id'' = Str filterKey
                  \<or> propOf body ''name'' = Str filterKey
               then body else Null
           | _ \<Rightarrow> Null))"



text \<open>A field on which \<^verbatim>\<open>||\<close> and \<^verbatim>\<open>??\<close> agree: absent or \<^verbatim>\<open>null\<close>, or truthy.\<close>

definition nullishOrTruthy :: "jsval \<Rightarrow> bool" where
  "nullishOrTruthy v = (nullish v \<or> truthy v)"

section \<open>Example inputs\<close>

definition monitorA :: monitor where
  "monitorA =
     \<lparr>mid = ''1'', name = ''Monitor 1'', apiUrl = ''http://a'', filterId = [], interval = 30,
      isRunning = False, previousData = Null, differences = None\<rparr>"

definition responseV1 :: fetchResult where
  "responseV1 = Response 200 (Json (Obj [(''slug'', Str ''v1'')]))"

definition responseV2 :: fetchResult where
  "responseV2 = Response 200 (Json (Obj [(''slug'', Str ''v2'')]))"

text \<open>Monitor 1 in the list, started once, and started a second time.\<close>

definition startedOnce :: app where
  "startedOnce = startMonitor monitorA responseV1 (initialApp\<lparr>monitors := [monitorA]\<rparr>)"

definition startedTwice :: app where
  "startedTwice = startMonitor monitorA responseV1 startedOnce"

text \<open>Monitor 1 with the stored snapshot of slug \<^verbatim>\<open>v1\<close>, started; its immediate poll
  answers slug \<^verbatim>\<open>v2\<close>.\<close>

definition monitorSeenV1 :: monitor where
  "monitorSeenV1 = monitorA\<lparr>previousData := Obj [(''slug'', Str ''v1'')]\<rparr>"

definition restartedSeenV1 :: app where
  "restartedSeenV1 = startMonitor monitorSeenV1 responseV2 (initialApp\<lparr>monitors := [monitorSeenV1]\<rparr>)"

text \<open>The worker-based App with monitor 1 in the list, after its start button.\<close>

definition workerStarted :: wapp where
  "workerStarted = toggleMonitor_w monitorA (initialWapp\<lparr>w_monitors := [monitorA]\<rparr>)"

section \<open>Basic facts\<close>

lemma strictEq_Str [simp]: "strictEq v (Str k) = (v = Str k)"
  by (cases v) auto

lemma strictEq_primitive:
  "(\<And>xs. a \<noteq> Arr xs) \<Longrightarrow> (\<And>kvs. a \<noteq> Obj kvs) \<Longrightarrow> strictEq a b = (a = b)"
  by (cases a) auto

lemma nullish_not_truthy: "nullish v \<Longrightarrow> \<not> truthy v"
  by (cases v) auto

lemma clearMonitorInterval_idem:
  "clearMonitorInterval i (clearMonitorInterval i s) = clearMonitorInterval i s"
  by (simp add: clearMonitorInterval_def split: option.splits)

text \<open>\<^verbatim>\<open>updateMonitor\<close> in closed form: the list is mapped, and the timer of the id is
  cleared when the updates ask for it and a monitor has the id.\<close>

lemma updateMonitor_map_eq:
  "updateMonitor_map i u ms s =
     (map (\<lambda>m. if mid m = i then spread m u else m) ms,
      if clearsTimer u \<and> list_ex (\<lambda>m. mid m = i) ms then clearMonitorInterval i s else s)"
proof (induction ms arbitrary: s)
  case Nil
  show ?case by simp
next
  case (Cons m ms)
  show ?case
    by (simp add: Cons.IH clearMonitorInterval_idem Let_def)
qed

lemma updateMonitor_eq:
  "updateMonitor i u s =
     (if clearsTimer u \<and> list_ex (\<lambda>m. mid m = i) (monitors s) then clearMonitorInterval i s else s)
       \<lparr>monitors := map (\<lambda>m. if mid m = i then spread m u else m) (monitors s)\<rparr>"
  by (simp add: updateMonitor_def updateMonitor_map_eq)

lemma updateMonitor_keeps_timer:
  "\<not> clearsTimer u \<Longrightarrow>
   updateMonitor i u s = s\<lparr>monitors := map (\<lambda>m. if mid m = i then spread m u else m) (monitors s)\<rparr>"
  by (simp add: updateMonitor_eq)

text \<open>A poll cycle touches neither the timers nor \<^verbatim>\<open>intervals\<close>, whatever its outcome.\<close>

lemma fetchData_frame:
  "timers (fetchData monitor r s) = timers s
   \<and> intervals (fetchData monitor r s) = intervals s
   \<and> nextHandle (fetchData monitor r s) = nextHandle s
   \<and> selectedMonitor (fetchData monitor r s) = selectedMonitor s"
  by (simp add: fetchData_def fetchData_try_def Let_def updateMonitor_keeps_timer clearsTimer_def
      noUpdates_def split: fetchResult.splits sum.splits)

lemma tick_frame:
  "timers (tick h r s) = timers s \<and> intervals (tick h r s) = intervals s"
  by (simp add: tick_def fetchData_frame split: option.splits)

section \<open>Starting a monitor\<close>

text \<open>Every call of \<^verbatim>\<open>startMonitor\<close> adds a live timer and overwrites the handle stored
  for the id; nothing looks at whether the id has a timer already.\<close>

lemma startMonitor_adds_timer:
  "timers (startMonitor monitor r s) =
     timers s @ [\<lparr>handle = nextHandle s, callbackMonitor = monitor, delay = interval monitor * 1000\<rparr>]
   \<and> nextHandle (startMonitor monitor r s) = Suc (nextHandle s)
   \<and> intervals (startMonitor monitor r s) = (intervals s)(mid monitor \<mapsto> nextHandle s)"
  by (simp add: startMonitor_def setInterval_def Let_def updateMonitor_keeps_timer clearsTimer_def
      noUpdates_def fetchData_frame)

text \<open>The worker does look: a second \<^verbatim>\<open>START_MONITOR\<close> for an id changes nothing, and
  \<^verbatim>\<open>self.monitors\<close> never lists an id twice.\<close>

lemma worker_start_twice:
  "worker_onmessage (START_MONITOR monitor) (worker_onmessage (START_MONITOR monitor) w) =
   worker_onmessage (START_MONITOR monitor) w"
  by (simp add: worker_onmessage_def Let_def list_ex_iff)

lemma distinct_fst_remove1:
  "distinct (map fst xs) \<Longrightarrow> distinct (map fst (remove1 e xs))"
proof (induction xs)
  case Nil
  show ?case by simp
next
  case (Cons x xs)
  have "fst ` set (remove1 e xs) \<subseteq> fst ` set xs"
    by (rule image_mono) (rule set_remove1_subset)
  with Cons show ?case by auto
qed

lemma worker_one_entry_per_id:
  assumes "distinct (map fst (self_monitors w))"
  shows "distinct (map fst (self_monitors (worker_onmessage req w)))"
proof (cases req)
  case (START_MONITOR monitor)
  with assms show ?thesis
    by (auto simp: worker_onmessage_def Let_def list_ex_iff)
next
  case (STOP_MONITOR i)
  with assms show ?thesis
    by (auto simp: worker_onmessage_def distinct_fst_remove1 split: option.splits)
qed

text \<open>
  Claim C1, on the timer-based App: \<^verbatim>\<open>startMonitor\<close> called twice for monitor 1 with no
  stop in between leaves two live timers for that id, with handles 1 and 2, and \<^verbatim>\<open>intervals\<close>
  remembers only handle 2. The second start is not a no-op there (in the worker it is:
  \<open>worker_start_twice\<close>).
\<close>

theorem startMonitor_twice_leaves_two_timers:
  "map handle (timers startedTwice) = [1, 2]
   \<and> map (\<lambda>t. mid (callbackMonitor t)) (timers startedTwice) = [''1'', ''1'']
   \<and> intervals startedTwice ''1'' = Some 2"
  by code_simp

text \<open>Stopping the twice-started monitor clears the remembered timer only: handle 1 stays
  live and keeps polling.\<close>

lemma stop_after_double_start_leaks_timer:
  "map handle (timers (toggleMonitor (monitorA\<lparr>isRunning := True\<rparr>) responseV1 startedTwice)) = [1]
   \<and> map isRunning (monitors (toggleMonitor (monitorA\<lparr>isRunning := True\<rparr>) responseV1 startedTwice))
       = [False]"
  by code_simp

section \<open>Editing a monitor\<close>

text \<open>
  Claim C2, at the input where the code departs from it: monitor 1 is running and its
  interval is edited to 60. \<^verbatim>\<open>updateMonitor\<close> clears the timer, and the monitor still has
  \<^verbatim>\<open>isRunning = true\<close>: the flag is true with no live timer.
\<close>

theorem interval_edit_leaves_isRunning_without_timer:
  "map isRunning (monitors (updateMonitor ''1'' (noUpdates\<lparr>u_interval := Some 60\<rparr>) startedOnce))
     = [True]
   \<and> timers (updateMonitor ''1'' (noUpdates\<lparr>u_interval := Some 60\<rparr>) startedOnce) = []"
  by code_simp

text \<open>The stop button clears the same timer and does set the flag.\<close>

lemma stop_sets_isRunning_false:
  "map isRunning (monitors (toggleMonitor (monitorA\<lparr>isRunning := True\<rparr>) responseV1 startedOnce))
     = [False]
   \<and> timers (toggleMonitor (monitorA\<lparr>isRunning := True\<rparr>) responseV1 startedOnce) = []"
  by code_simp

text \<open>
  Claim C3 as stated fails: monitor 1 is running and its name is edited. The timer with
  handle 1 is still live, \<^verbatim>\<open>intervals\<close> still holds it and the monitor is still running.
\<close>

theorem name_edit_keeps_running:
  "map handle (timers (updateMonitor ''1'' (noUpdates\<lparr>u_name := Some ''x''\<rparr>) startedOnce)) = [1]
   \<and> map isRunning (monitors (updateMonitor ''1'' (noUpdates\<lparr>u_name := Some ''x''\<rparr>) startedOnce))
       = [True]
   \<and> intervals (updateMonitor ''1'' (noUpdates\<lparr>u_name := Some ''x''\<rparr>) startedOnce) ''1'' = Some 1"
  by code_simp

text \<open>
  Claim C3, amended. A monitor \<open>i\<close> of the list is running on timer \<open>h\<close>
  (\<^verbatim>\<open>intervals[i]\<close> is the handle \<open>h\<close>). Editing its interval through \<^verbatim>\<open>updateMonitor\<close>
  cancels timer \<open>h\<close> and no other, forgets the handle, and starts no new timer. Editing its
  name, apiUrl or filterId changes that field of the monitor and nothing else: the timer,
  \<^verbatim>\<open>intervals\<close> and \<^verbatim>\<open>isRunning\<close> stay as they are, so the monitor keeps running.
\<close>

theorem edit_while_running:
  assumes registered: "intervals s i = Some h" and positive: "h \<noteq> 0"
    and listed: "list_ex (\<lambda>m. mid m = i) (monitors s)"
  shows "timers (updateMonitor i (noUpdates\<lparr>u_interval := Some n\<rparr>) s) = clearInterval h (timers s)
       \<and> find (\<lambda>t. handle t = h) (timers (updateMonitor i (noUpdates\<lparr>u_interval := Some n\<rparr>) s)) = None
       \<and> intervals (updateMonitor i (noUpdates\<lparr>u_interval := Some n\<rparr>) s) = (intervals s)(i := None)
       \<and> nextHandle (updateMonitor i (noUpdates\<lparr>u_interval := Some n\<rparr>) s) = nextHandle s
       \<and> updateMonitor i (noUpdates\<lparr>u_name := Some v\<rparr>) s =
           s\<lparr>monitors := map (\<lambda>m. if mid m = i then m\<lparr>name := v\<rparr> else m) (monitors s)\<rparr>
       \<and> updateMonitor i (noUpdates\<lparr>u_apiUrl := Some v\<rparr>) s =
           s\<lparr>monitors := map (\<lambda>m. if mid m = i then m\<lparr>apiUrl := v\<rparr> else m) (monitors s)\<rparr>
       \<and> updateMonitor i (noUpdates\<lparr>u_filterId := Some v\<rparr>) s =
           s\<lparr>monitors := map (\<lambda>m. if mid m = i then m\<lparr>filterId := v\<rparr> else m) (monitors s)\<rparr>"
proof -
  have gone: "find (\<lambda>t. handle t = h) (clearInterval h ts) = None" for ts
    by (induction ts) (simp_all add: clearInterval_def)
  have cleared: "clearsTimer (noUpdates\<lparr>u_interval := Some n\<rparr>)"
    by (simp add: clearsTimer_def)
  have kept: "\<not> clearsTimer (noUpdates\<lparr>u_name := Some v\<rparr>)"
    "\<not> clearsTimer (noUpdates\<lparr>u_apiUrl := Some v\<rparr>)"
    "\<not> clearsTimer (noUpdates\<lparr>u_filterId := Some v\<rparr>)"
    by (simp_all add: clearsTimer_def noUpdates_def)
  from registered positive have cmi:
    "clearMonitorInterval i s =
       s\<lparr>timers := clearInterval h (timers s), intervals := (intervals s)(i := None)\<rparr>"
    by (simp add: clearMonitorInterval_def)
  from cleared listed cmi gone kept show ?thesis
    by (simp add: updateMonitor_eq spread_def noUpdates_def)
qed

theorem edit_while_running_witness:
  "intervals startedOnce ''1'' = Some 1 \<and> (1::nat) \<noteq> 0
   \<and> list_ex (\<lambda>m. mid m = ''1'') (monitors startedOnce)
   \<and> timers (updateMonitor ''1'' (noUpdates\<lparr>u_interval := Some 60\<rparr>) startedOnce) = []
   \<and> intervals (updateMonitor ''1'' (noUpdates\<lparr>u_interval := Some 60\<rparr>) startedOnce) ''1'' = None
   \<and> timers (updateMonitor ''1'' (noUpdates\<lparr>u_apiUrl := Some ''http://b''\<rparr>) startedOnce)
       = timers startedOnce"
proof -
  have registered: "intervals startedOnce ''1'' = Some 1"
    by code_simp
  have positive: "(1::nat) \<noteq> 0"
    by simp
  have listed: "list_ex (\<lambda>m. mid m = ''1'') (monitors startedOnce)"
    by code_simp
  have only: "clearInterval 1 (timers startedOnce) = []"
    by code_simp
  from edit_while_running [OF registered positive listed, where n = 60 and v = "''http://b''"]
    registered listed only
  show ?thesis by simp
qed

section \<open>The poll cycle\<close>

text \<open>What one call of \<^verbatim>\<open>fetchData(monitor)\<close> does with the truthy record it extracts,
  relative to the monitor object it is given: the URL is set, the response is 2xx, its
  body parses to \<open>data\<close>, \<^verbatim>\<open>extractRelevantData\<close> gives \<open>record\<close>, and the slug converts
  to \<open>slugText\<close>. If that object has a snapshot and the slugs are not \<^verbatim>\<open>===\<close>, every monitor
  with the id gets the record and the difference object and the change toast is shown;
  otherwise only \<^verbatim>\<open>previousData\<close> is set.\<close>

lemma fetchData_on_extracted_record:
  assumes url: "apiUrl monitor \<noteq> []"
    and status: "ok status"
    and parsed: "parseBody b = Inr data"
    and extracted: "extractRelevantData data (filterId monitor) = Inr record"
    and found: "truthy record"
    and converted: "toStr (getSlugFromData record) = Inr slugText"
  shows "fetchData monitor (Response status b) s =
     (if truthy (previousData monitor)
         \<and> \<not> strictEq (getSlugFromData record) (getSlugFromData (previousData monitor))
      then
        s\<lparr>monitors :=
             map (\<lambda>m. if mid m = mid monitor
                       then m\<lparr>previousData := record,
                              differences := Some
                                \<lparr>d_name = getNameFromData record,
                                 d_url = apiUrl monitor @ ''/'' @ slugText,
                                 d_previous = getSlugFromData (previousData monitor),
                                 d_current = getSlugFromData record\<rparr>\<rparr>
                       else m) (monitors s),
           toasts := toasts s @ [ToastSuccess (''Changes detected in '' @ name monitor @ ''!'')]\<rparr>
      else
        s\<lparr>monitors :=
             map (\<lambda>m. if mid m = mid monitor then m\<lparr>previousData := record\<rparr> else m)
               (monitors s)\<rparr>)"
  using assms
  by (simp add: fetchData_def fetchData_try_def Let_def updateMonitor_keeps_timer clearsTimer_def
      noUpdates_def spread_def)

text \<open>
  Claim C4, at the inputs where the code departs from it. A timer polls with the monitor
  object it was started with, not with the monitor as stored. Monitor 1 is started with no
  snapshot and its first poll stores the record with slug \<^verbatim>\<open>v1\<close>; when the timer fires
  and the response has slug \<^verbatim>\<open>v2\<close>, the cycle sees no previous snapshot: the new record
  is stored, no difference is recorded and no change toast is shown. And monitor 1,
  restarted with the snapshot \<^verbatim>\<open>v1\<close>, stores \<^verbatim>\<open>v2\<close> at its immediate poll and reports
  the change; when the timer fires and the response has slug \<^verbatim>\<open>v2\<close> again, the same
  change is recorded and reported a second time, although the stored slug equals the new
  one.
\<close>

theorem timer_polls_with_monitor_as_started:
  "map previousData (monitors startedOnce) = [Obj [(''slug'', Str ''v1'')]]
   \<and> map previousData (monitors (tick 1 responseV2 startedOnce)) = [Obj [(''slug'', Str ''v2'')]]
   \<and> map differences (monitors (tick 1 responseV2 startedOnce)) = [None]
   \<and> toasts (tick 1 responseV2 startedOnce) = []
   \<and> map previousData (monitors restartedSeenV1) = [Obj [(''slug'', Str ''v2'')]]
   \<and> toasts restartedSeenV1 = [ToastSuccess ''Changes detected in Monitor 1!'']
   \<and> map differences (monitors (tick 1 responseV2 restartedSeenV1))
       = [Some \<lparr>d_name = Null, d_url = ''http://a/v2'', d_previous = Str ''v1'',
                 d_current = Str ''v2''\<rparr>]
   \<and> toasts (tick 1 responseV2 restartedSeenV1)
       = [ToastSuccess ''Changes detected in Monitor 1!'',
          ToastSuccess ''Changes detected in Monitor 1!'']"
  by code_simp

text \<open>
  Claim C5 as stated fails: with \<^verbatim>\<open>{slug: "", name: "a"}\<close> the code's slug is \<^verbatim>\<open>"a"\<close>,
  where \<^verbatim>\<open>record.slug ?? record.name ?? null\<close> is the empty string.
\<close>

theorem empty_slug_is_skipped:
  "getSlugFromData (Obj [(''slug'', Str []), (''name'', Str ''a'')]) = Str ''a''
   \<and> slug_spec (Obj [(''slug'', Str []), (''name'', Str ''a'')]) = Str []"
  by code_simp

lemma or_js_coalesce: "nullishOrTruthy a \<Longrightarrow> or_js a b = coalesce a b"
  by (auto simp: nullishOrTruthy_def or_js_def coalesce_def dest: nullish_not_truthy)

lemma nullishOrTruthy_coalesce:
  "nullishOrTruthy a \<Longrightarrow> nullishOrTruthy b \<Longrightarrow> nullishOrTruthy (coalesce a b)"
  by (auto simp: nullishOrTruthy_def coalesce_def)

text \<open>
  Claim C5, amended. For every extracted (truthy) record the slug is the first truthy one
  of \<^verbatim>\<open>record.slug\<close>, \<^verbatim>\<open>record.name\<close>, else \<^verbatim>\<open>null\<close>, and the display name the first truthy
  one of \<^verbatim>\<open>record.name\<close>, \<^verbatim>\<open>record.displayName\<close>, \<^verbatim>\<open>record.title\<close>, else \<^verbatim>\<open>null\<close>: a field
  that is \<^verbatim>\<open>""\<close>, \<^verbatim>\<open>0\<close> or \<^verbatim>\<open>false\<close> is skipped like a missing one. Where every field
  consulted is missing, \<^verbatim>\<open>null\<close> or truthy, this is the \<^verbatim>\<open>??\<close> chain of the
  specification.
\<close>

theorem slug_and_name_first_truthy:
  assumes "truthy record"
  shows "getSlugFromData record =
           (if truthy (propOf record ''slug'') then propOf record ''slug''
            else if truthy (propOf record ''name'') then propOf record ''name'' else Null)
       \<and> getNameFromData record =
           (if truthy (propOf record ''name'') then propOf record ''name''
            else if truthy (propOf record ''displayName'') then propOf record ''displayName''
            else if truthy (propOf record ''title'') then propOf record ''title'' else Null)
       \<and> (nullishOrTruthy (propOf record ''slug'') \<and> nullishOrTruthy (propOf record ''name'')
            \<longrightarrow> getSlugFromData record = slug_spec record)
       \<and> (nullishOrTruthy (propOf record ''name'') \<and> nullishOrTruthy (propOf record ''displayName'')
            \<and> nullishOrTruthy (propOf record ''title'')
            \<longrightarrow> getNameFromData record = displayName_spec record)"
proof -
  have slug: "getSlugFromData record =
           (if truthy (propOf record ''slug'') then propOf record ''slug''
            else if truthy (propOf record ''name'') then propOf record ''name'' else Null)"
    using assms by (simp add: getSlugFromData_def or_js_def)
  have nm: "getNameFromData record =
           (if truthy (propOf record ''name'') then propOf record ''name''
            else if truthy (propOf record ''displayName'') then propOf record ''displayName''
            else if truthy (propOf record ''title'') then propOf record ''title'' else Null)"
    using assms by (simp add: getNameFromData_def or_js_def)
  have slug_spec: "getSlugFromData record = slug_spec record"
    if "nullishOrTruthy (propOf record ''slug'')" "nullishOrTruthy (propOf record ''name'')"
    using assms that
    by (simp add: getSlugFromData_def slug_spec_def or_js_coalesce nullishOrTruthy_coalesce
        nullishOrTruthy_def [of Null])
  have name_spec: "getNameFromData record = displayName_spec record"
    if "nullishOrTruthy (propOf record ''name'')" "nullishOrTruthy (propOf record ''displayName'')"
       "nullishOrTruthy (propOf record ''title'')"
    using assms that
    by (simp add: getNameFromData_def displayName_spec_def or_js_coalesce nullishOrTruthy_coalesce
        nullishOrTruthy_def [of Null])
  from slug nm slug_spec name_spec show ?thesis by blast
qed

theorem slug_and_name_first_truthy_witness:
  "truthy (Obj [(''name'', Str ''q1''), (''title'', Str ''Queue 1'')])
   \<and> getSlugFromData (Obj [(''name'', Str ''q1''), (''title'', Str ''Queue 1'')]) = Str ''q1''
   \<and> slug_spec (Obj [(''name'', Str ''q1''), (''title'', Str ''Queue 1'')]) = Str ''q1''
   \<and> getNameFromData (Obj [(''name'', Str ''q1''), (''title'', Str ''Queue 1'')]) = Str ''q1''
   \<and> displayName_spec (Obj [(''name'', Str ''q1''), (''title'', Str ''Queue 1'')]) = Str ''q1''"
proof -
  let ?r = "Obj [(''name'', Str ''q1''), (''title'', Str ''Queue 1'')]"
  have extracted: "truthy ?r"
    by simp
  have fields: "nullishOrTruthy (propOf ?r ''slug'')" "nullishOrTruthy (propOf ?r ''name'')"
    "nullishOrTruthy (propOf ?r ''displayName'')" "nullishOrTruthy (propOf ?r ''title'')"
    by (simp_all add: nullishOrTruthy_def)
  from slug_and_name_first_truthy [OF extracted] fields extracted
  show ?thesis by auto
qed

section \<open>Record extraction\<close>


text \<open>A \<^verbatim>\<open>null\<close> entry met by the search is the other departure: reading its property
  throws, where the case analysis finds the entry behind it.\<close>

lemma null_entry_throws:
  "extractRelevantData (Arr [Null, Obj [(''id'', Str ''y'')]]) ''y''
     = Inl (TypeError ''Cannot read properties of null or undefined: id'')
   \<and> extractRecord_spec (Arr [Null, Obj [(''id'', Str ''y'')]]) ''y'' = Obj [(''id'', Str ''y'')]"
  by code_simp







section \<open>Errors of a poll cycle\<close>

text \<open>
  Claim C7. A poll cycle for a monitor whose \<^verbatim>\<open>apiUrl\<close> is empty shows the error toast
  that names the monitor and changes nothing else, whatever the network would answer: the
  monitors (so \<^verbatim>\<open>previousData\<close> and \<^verbatim>\<open>differences\<close>), the live timers and \<^verbatim>\<open>intervals\<close>
  are as before, and a timer that fired stays live for its next tick.
\<close>

theorem fetchData_empty_url:
  assumes "apiUrl monitor = []"
  shows "fetchData monitor r s =
           s\<lparr>toasts := toasts s @ [ToastError (''Please enter an API URL for '' @ name monitor)]\<rparr>
       \<and> monitors (fetchData monitor r s) = monitors s
       \<and> timers (fetchData monitor r s) = timers s
       \<and> intervals (fetchData monitor r s) = intervals s
       \<and> timers (tick h r s) = timers s"
  using assms by (simp add: fetchData_def fetchData_try_def tick_frame)

theorem fetchData_empty_url_witness:
  "apiUrl (monitorA\<lparr>apiUrl := []\<rparr>) = []
   \<and> toasts (fetchData (monitorA\<lparr>apiUrl := []\<rparr>) responseV1 startedOnce)
       = [ToastError ''Please enter an API URL for Monitor 1'']
   \<and> monitors (fetchData (monitorA\<lparr>apiUrl := []\<rparr>) responseV1 startedOnce) = monitors startedOnce
   \<and> map handle (timers (fetchData (monitorA\<lparr>apiUrl := []\<rparr>) responseV1 startedOnce)) = [1]"
proof -
  have empty: "apiUrl (monitorA\<lparr>apiUrl := []\<rparr>) = []"
    by simp
  have before: "toasts startedOnce = []" "map handle (timers startedOnce) = [1]"
    by code_simp+
  from fetchData_empty_url [OF empty, of responseV1 startedOnce] empty before
  show ?thesis
    by (simp add: monitorA_def)
qed

lemma tick_w_frame:
  "self_timers (tick_w h r w) = self_timers w
   \<and> self_monitors (tick_w h r w) = self_monitors w
   \<and> self_nextHandle (tick_w h r w) = self_nextHandle w"
  by (simp add: tick_w_def page_onmessage_def updateMonitor_w_def Let_def
      split: option.splits workerReply.splits)

text \<open>
  Claim C8. With the URL set, each kind of failure of a poll cycle ends in the
  \<^verbatim>\<open>catch\<close> of \<^verbatim>\<open>fetchData\<close>: a rejected fetch, a status outside 200 to 299, a body that
  does not parse, an exception thrown by the extraction, and any exception at all that
  the \<^verbatim>\<open>try\<close> block throws. The state is then as before but for one error toast that
  names the monitor. No poll cycle, failed or not, changes the
  live timers or \<^verbatim>\<open>intervals\<close>, so the timer that fired and those of the other monitors
  keep firing. In the worker a failed cycle posts one \<^verbatim>\<open>ERROR\<close> message for the monitor,
  which the page shows as an error toast; the worker's timers and \<^verbatim>\<open>self.monitors\<close> and
  the page's monitors are as before.
\<close>

theorem poll_errors_are_contained:
  assumes "apiUrl monitor \<noteq> []"
  shows "fetchData monitor (NetworkFailure msg) s =
           s\<lparr>toasts := toasts s @ [ToastError (''Error in '' @ name monitor @ '': '' @ msg)]\<rparr>
       \<and> (\<not> ok status \<longrightarrow>
            fetchData monitor (Response status b) s =
              s\<lparr>toasts := toasts s @
                   [ToastError (''Error in '' @ name monitor @ '': ''
                                 @ ''HTTP error! status: '' @ showNat status)]\<rparr>)
       \<and> (ok status \<and> parseBody b = Inl e \<longrightarrow>
            fetchData monitor (Response status b) s =
              s\<lparr>toasts := toasts s @
                   [ToastError (''Error in '' @ name monitor @ '': '' @ message e)]\<rparr>)
       \<and> (ok status \<and> parseBody b = Inr data
            \<and> extractRelevantData data (filterId monitor) = Inl e \<longrightarrow>
            fetchData monitor (Response status b) s =
              s\<lparr>toasts := toasts s @
                   [ToastError (''Error in '' @ name monitor @ '': '' @ message e)]\<rparr>)
       \<and> (fetchData_try monitor r s = Inl e \<longrightarrow>
            fetchData monitor r s =
              s\<lparr>toasts := toasts s @
                   [ToastError (''Error in '' @ name monitor @ '': '' @ message e)]\<rparr>)
       \<and> timers (fetchData monitor r s) = timers s
       \<and> intervals (fetchData monitor r s) = intervals s
       \<and> timers (tick h r s) = timers s
       \<and> intervals (tick h r s) = intervals s
       \<and> intervalCallback monitor (NetworkFailure msg) = ERROR (mid monitor) msg
       \<and> (\<not> ok status \<longrightarrow>
            intervalCallback monitor (Response status b)
              = ERROR (mid monitor) (''HTTP '' @ showNat status))
       \<and> (ok status \<longrightarrow>
            intervalCallback monitor (Response status (NotJson msg m)) = ERROR (mid monitor) msg)
       \<and> page_onmessage (ERROR i msg) w =
            w\<lparr>w_toasts := w_toasts w @ [ToastError (''Error in '' @ i @ '': '' @ msg)]\<rparr>
       \<and> self_timers (tick_w h r w) = self_timers w
       \<and> self_monitors (tick_w h r w) = self_monitors w"
proof -
  have network: "fetchData monitor (NetworkFailure msg) s =
      s\<lparr>toasts := toasts s @ [ToastError (''Error in '' @ name monitor @ '': '' @ msg)]\<rparr>"
    using assms by (simp add: fetchData_def fetchData_try_def)
  have http: "fetchData monitor (Response status b) s =
      s\<lparr>toasts := toasts s @
           [ToastError (''Error in '' @ name monitor @ '': ''
                         @ ''HTTP error! status: '' @ showNat status)]\<rparr>"
    if "\<not> ok status"
    using assms that by (simp add: fetchData_def fetchData_try_def)
  have parse: "fetchData monitor (Response status b) s =
      s\<lparr>toasts := toasts s @ [ToastError (''Error in '' @ name monitor @ '': '' @ message e)]\<rparr>"
    if "ok status" "parseBody b = Inl e"
    using assms that by (simp add: fetchData_def fetchData_try_def)
  have extraction: "fetchData monitor (Response status b) s =
      s\<lparr>toasts := toasts s @ [ToastError (''Error in '' @ name monitor @ '': '' @ message e)]\<rparr>"
    if "ok status" "parseBody b = Inr data" "extractRelevantData data (filterId monitor) = Inl e"
    using assms that by (simp add: fetchData_def fetchData_try_def)
  have worker: "intervalCallback monitor (NetworkFailure msg) = ERROR (mid monitor) msg"
    "\<not> ok status \<Longrightarrow>
       intervalCallback monitor (Response status b) = ERROR (mid monitor) (''HTTP '' @ showNat status)"
    "ok status \<Longrightarrow>
       intervalCallback monitor (Response status (NotJson msg m)) = ERROR (mid monitor) msg"
    by (simp_all add: intervalCallback_def)
  have page: "page_onmessage (ERROR i msg) w =
      w\<lparr>w_toasts := w_toasts w @ [ToastError (''Error in '' @ i @ '': '' @ msg)]\<rparr>"
    by (simp add: page_onmessage_def)
  have thrown: "fetchData monitor r s =
      s\<lparr>toasts := toasts s @ [ToastError (''Error in '' @ name monitor @ '': '' @ message e)]\<rparr>"
    if "fetchData_try monitor r s = Inl e"
    using that by (simp add: fetchData_def)
  from network http parse extraction thrown worker page show ?thesis
    by (simp add: fetchData_frame tick_frame tick_w_frame)
qed

theorem poll_errors_are_contained_witness:
  "apiUrl monitorA \<noteq> [] \<and> \<not> ok 500
   \<and> toasts (fetchData monitorA (Response 500 (Json Null)) startedOnce)
       = [ToastError ''Error in Monitor 1: HTTP error! status: 500'']
   \<and> monitors (fetchData monitorA (Response 500 (Json Null)) startedOnce) = monitors startedOnce
   \<and> toasts (fetchData monitorA (NetworkFailure ''Failed to fetch'') startedOnce)
       = [ToastError ''Error in Monitor 1: Failed to fetch'']
   \<and> toasts (fetchData monitorA (Response 200 (NotJson ''Unexpected token'' NoMatch)) startedOnce)
       = [ToastError ''Error in Monitor 1: Unsupported response format'']
   \<and> map handle (timers (tick 1 (Response 500 (Json Null)) startedOnce)) = [1]"
proof -
  have url: "apiUrl monitorA \<noteq> []"
    by (simp add: monitorA_def)
  have status: "\<not> ok 500" "ok 200"
    by (simp_all add: ok_def)
  have shown: "showNat 500 = ''500''"
    by code_simp
  have unparsed: "parseBody (NotJson ''Unexpected token'' NoMatch)
      = Inl (Error ''Unsupported response format'')"
    by simp
  have before: "toasts startedOnce = []" "map handle (timers startedOnce) = [1]"
    by code_simp+
  from poll_errors_are_contained [OF url, where status = 500 and s = startedOnce and h = 1
      and b = "Json Null" and r = "Response 500 (Json Null)" and msg = "''Failed to fetch''"]
    poll_errors_are_contained [OF url, where status = 200 and s = startedOnce
      and b = "NotJson ''Unexpected token'' NoMatch"
      and e = "Error ''Unsupported response format''"]
    url status shown unparsed before
  show ?thesis
    by (simp add: monitorA_def)
qed

section \<open>Restoring the saved monitors\<close>

text \<open>The mount effect of the timer-based App starts, in order, one timer for each saved
  monitor with \<^verbatim>\<open>isRunning = true\<close> and none for the others.\<close>

lemma restartAll_timers:
  "map callbackMonitor (timers (restartAll saved s)) =
     map callbackMonitor (timers s) @ filter isRunning (map fst saved)"
proof (induction saved arbitrary: s)
  case Nil
  show ?case by simp
next
  case (Cons p saved)
  obtain monitor r where p: "p = (monitor, r)"
    by (cases p)
  show ?case
    by (simp add: p Cons.IH startMonitor_adds_timer)
qed

lemma restore_starts_each_running_monitor_once:
  "map callbackMonitor (timers (restore (Some saved) s)) =
     map callbackMonitor (timers s) @ filter isRunning (map fst saved)"
  by (simp add: restore_def restartAll_timers)

text \<open>
  Claim C9, at the input where the code departs from it: the worker-based App mounts with
  one saved monitor that has \<^verbatim>\<open>isRunning = true\<close>. The monitor is restored as running, and
  the worker has no timer and no entry for it: nothing was started (the timer-based App
  starts it once, \<open>restore_starts_each_running_monitor_once\<close>).
\<close>

theorem worker_restore_starts_nothing:
  "map isRunning (w_monitors (restore_w (Some [monitorA\<lparr>isRunning := True\<rparr>]) initialWapp)) = [True]
   \<and> self_timers (restore_w (Some [monitorA\<lparr>isRunning := True\<rparr>]) initialWapp) = []
   \<and> self_monitors (restore_w (Some [monitorA\<lparr>isRunning := True\<rparr>]) initialWapp) = []"
  by code_simp

section \<open>The worker's poll cycle\<close>

lemma spread_differences:
  "u_differences u = None \<Longrightarrow> differences (spread m u) = differences m"
  by (simp add: spread_def)

lemma updateMonitor_w_differences:
  "u_differences u = None \<Longrightarrow>
   map differences (w_monitors (updateMonitor_w i u w)) = map differences (w_monitors w)"
  by (simp add: updateMonitor_w_def spread_differences cong: map_cong)

lemma worker_onmessage_page:
  "w_monitors (worker_onmessage req w) = w_monitors w"
  by (simp add: worker_onmessage_def Let_def split: workerRequest.splits option.splits)

lemma tick_w_differences:
  "map differences (w_monitors (tick_w h r w)) = map differences (w_monitors w)"
  by (simp add: tick_w_def page_onmessage_def Let_def updateMonitor_w_differences noUpdates_def
      split: option.splits workerReply.splits)

lemma updateMonitor_w_differences_set:
  assumes "u_differences u = None"
  shows "differences ` set (w_monitors (updateMonitor_w i u w)) = differences ` set (w_monitors w)"
proof -
  have "set (map differences (w_monitors (updateMonitor_w i u w)))
      = set (map differences (w_monitors w))"
    using assms by (simp only: updateMonitor_w_differences)
  then show ?thesis by simp
qed

lemma tick_w_differences_set:
  "differences ` set (w_monitors (tick_w h r w)) = differences ` set (w_monitors w)"
proof -
  have "set (map differences (w_monitors (tick_w h r w))) = set (map differences (w_monitors w))"
    by (simp only: tick_w_differences)
  then show ?thesis by simp
qed

lemma wstep_differences:
  "set (map differences (w_monitors (wstep e w)))
     \<subseteq> insert None (set (map differences (w_monitors w)) \<union> savedDifferences e)"
proof (cases e)
  case (AddNewMonitor now)
  then show ?thesis
    by (auto simp: wstep_def addNewMonitor_w_def Let_def)
next
  case (EditName i v)
  then show ?thesis
    by (auto simp: wstep_def updateMonitor_w_differences_set noUpdates_def)
next
  case (EditApiUrl i v)
  then show ?thesis
    by (auto simp: wstep_def updateMonitor_w_differences_set noUpdates_def)
next
  case (DeleteMonitor i)
  then show ?thesis
    by (auto simp: wstep_def deleteMonitor_w_def Let_def worker_onmessage_page)
next
  case (ToggleMonitor monitor)
  then show ?thesis
    by (auto simp: wstep_def toggleMonitor_w_def updateMonitor_w_differences_set noUpdates_def
        worker_onmessage_page)
next
  case (TimerFires h r)
  then show ?thesis
    by (auto simp: wstep_def tick_w_differences_set)
next
  case (Mount savedMonitors)
  then show ?thesis
    by (auto simp: wstep_def restore_w_def savedDifferences_def split: option.splits)
qed

text \<open>
  Claim C10. When the worker's live timer \<open>h\<close>, started for monitor \<open>t\<close>, fires and the
  fetch gives a 2xx response whose body is the JSON value \<open>data\<close>, every monitor of the page
  with that id gets \<^verbatim>\<open>previousData = data\<close>, the body as parsed: no extraction, no filter,
  no slug comparison. All other fields and monitors are as before and the "update
  received" toast is shown. No firing, whatever its outcome, changes the \<^verbatim>\<open>differences\<close>
  of any monitor, and no event of the worker-based App produces a difference object: the
  ones present afterwards were present before or came from the saved list.
\<close>

theorem worker_poll_stores_raw_body:
  assumes live: "find (\<lambda>t. handle t = h) (self_timers w) = Some t" and status: "ok status"
  shows "tick_w h (Response status (Json data)) w =
           w\<lparr>w_monitors :=
                map (\<lambda>m. if mid m = mid (callbackMonitor t) then m\<lparr>previousData := data\<rparr> else m)
                  (w_monitors w),
              w_toasts := w_toasts w @
                [ToastSuccess (''Update received for '' @ mid (callbackMonitor t))]\<rparr>
       \<and> map differences (w_monitors (tick_w h r w)) = map differences (w_monitors w)
       \<and> set (map differences (w_monitors (wstep e w)))
           \<subseteq> insert None (set (map differences (w_monitors w)) \<union> savedDifferences e)"
proof -
  have "tick_w h (Response status (Json data)) w =
           w\<lparr>w_monitors :=
                map (\<lambda>m. if mid m = mid (callbackMonitor t) then m\<lparr>previousData := data\<rparr> else m)
                  (w_monitors w),
              w_toasts := w_toasts w @
                [ToastSuccess (''Update received for '' @ mid (callbackMonitor t))]\<rparr>"
    using live status
    by (simp add: tick_w_def intervalCallback_def page_onmessage_def updateMonitor_w_def Let_def
        spread_def noUpdates_def)
  with tick_w_differences wstep_differences show ?thesis
    by simp
qed

theorem worker_poll_stores_raw_body_witness:
  "find (\<lambda>t. handle t = 1) (self_timers workerStarted)
     = Some \<lparr>handle = 1, callbackMonitor = monitorA, delay = 30000\<rparr>
   \<and> ok 200
   \<and> map previousData
        (w_monitors (tick_w 1 (Response 200 (Json (Obj [(''queues'', Arr [Obj [(''name'', Str ''a'')]])])))
                       workerStarted))
       = [Obj [(''queues'', Arr [Obj [(''name'', Str ''a'')]])]]
   \<and> map differences
        (w_monitors (tick_w 1 (Response 200 (Json (Obj [(''queues'', Arr [Obj [(''name'', Str ''a'')]])])))
                       workerStarted))
       = [None]"
proof -
  have live: "find (\<lambda>t. handle t = 1) (self_timers workerStarted)
      = Some \<lparr>handle = 1, callbackMonitor = monitorA, delay = 30000\<rparr>"
    by code_simp
  have status: "ok 200"
    by (simp add: ok_def)
  have page: "w_monitors workerStarted = [monitorA\<lparr>isRunning := True\<rparr>]"
    by code_simp
  from worker_poll_stores_raw_body [OF live status,
      where data = "Obj [(''queues'', Arr [Obj [(''name'', Str ''a'')]])]"]
    live status page
  show ?thesis
    by (simp add: monitorA_def)
qed

end
